theory Spec2Isabelle
  imports Main "HOL-Library.Word"
begin

section \<open>The task-callback trampoline of \<^verbatim>\<open>matrix_sdk_ffi.c\<close>\<close>

text \<open>
  The source file holds one function:
  \<^verbatim>\<open>
  void cgo_rust_task_callback_bridge_matrix_sdk_ffi(RustTaskCallback cb,
                                                    const void * taskData,
                                                    int8_t status) {
    cb(taskData, status);
  }
  \<close>
  Its only effect is a call through a function pointer, so the model makes that call
  explicit: a process has a table of the functions that live at code addresses, a call
  through a pointer looks the callee up there, and every run reports the calls the
  trampoline issued together with the way the run ended.
\<close>

subsection \<open>Values\<close>

text \<open>
  A pointer (\<^verbatim>\<open>const void *\<close>, and the address of a function) is a machine word
  of the platform's address width \<open>'a\<close>; the null pointer is the word \<open>0\<close>.
  \<^verbatim>\<open>int8_t\<close> is an 8-bit word, read as two's complement by \<open>sint\<close>.
\<close>

type_synonym 'a pointer = "'a word"

type_synonym int8_t = "8 word"

subsection \<open>How a call can end\<close>

text \<open>
  A C function of result type \<^verbatim>\<open>void\<close> either returns, leaving the world in a new
  state, or it does not return: it leaves by a fault (a non-local exit, a trap, an abort),
  it runs forever, or its behaviour is undefined.
\<close>

datatype fault = Raised | Trapped | Aborted

datatype 'w outcome =
    Returned 'w
  | Faulted fault 'w
  | Diverged
  | Undefined

subsection \<open>Callbacks and the code of the process\<close>

text \<open>
  Modelled from the spec: the type \<^verbatim>\<open>RustTaskCallback\<close> is declared in
  \<^verbatim>\<open>matrix_sdk_ffi.h\<close>, which is not part of the sources at hand. The
  specification gives its signature: a pointer to a function that accepts an opaque
  pointer and a signed 8-bit integer and returns nothing. The value itself is a code
  address; the function found at that address is a \<open>callee\<close>, which receives the two
  arguments and the state of the world (memory and everything else the program can
  observe) and ends in an \<open>outcome\<close>.
\<close>

type_synonym 'a RustTaskCallback = "'a pointer"

type_synonym ('a, 'w) callee = "'a pointer \<Rightarrow> int8_t \<Rightarrow> 'w \<Rightarrow> 'w outcome"

type_synonym ('a, 'w) code = "'a pointer \<rightharpoonup> ('a, 'w) callee"

subsection \<open>Runs\<close>

text \<open>
  One entry per call issued through a function pointer: the address called and the two
  argument values handed over. The type \<open>'p\<close> of addresses is a pointer type.
\<close>

datatype 'p invocation =
  Invoke (target: 'p) (arg_context: 'p) (arg_status: int8_t)

record ('p, 'w) run =
  calls :: "'p invocation list"
  result :: "'w outcome"

subsection \<open>The call through a function pointer\<close>

text \<open>
  The expression \<^verbatim>\<open>fp(x, s)\<close>. Calling the null pointer, or an address at which
  no function of the expected type lives, is undefined behaviour in C. Otherwise the
  callee runs once with the argument values as they are, starting from the caller's
  world, and the call ends as the callee ends.
\<close>

definition call_fnptr ::
  "('a::len, 'w) code \<Rightarrow> 'a pointer \<Rightarrow> 'a pointer \<Rightarrow> int8_t \<Rightarrow> 'w \<Rightarrow> ('a pointer, 'w) run" where
  "call_fnptr \<Gamma> fp x s w =
     (if fp = 0 then \<lparr>calls = [], result = Undefined\<rparr>
      else case \<Gamma> fp of
             None \<Rightarrow> \<lparr>calls = [], result = Undefined\<rparr>
           | Some f \<Rightarrow> \<lparr>calls = [Invoke fp x s], result = f x s w\<rparr>)"

subsection \<open>The trampoline\<close>

text \<open>
  The body is the single expression statement \<^verbatim>\<open>cb(taskData, status);\<close>, after
  which the function falls off its end and returns to its caller.
\<close>

definition cgo_rust_task_callback_bridge_matrix_sdk_ffi ::
  "('a::len, 'w) code \<Rightarrow> 'a RustTaskCallback \<Rightarrow> 'a pointer \<Rightarrow> int8_t \<Rightarrow> 'w \<Rightarrow> ('a pointer, 'w) run" where
  "cgo_rust_task_callback_bridge_matrix_sdk_ffi \<Gamma> cb taskData status w =
     call_fnptr \<Gamma> cb taskData status w"

subsection \<open>Callables used in the concrete scenarios\<close>

text \<open>
  A recording callable appends the pair of arguments it observes to the world, which is
  the list of observations made so far. A trapping callable faults without returning, a
  spinning one never returns, and a storing one writes the status byte to the memory cell
  its context points to.
\<close>

definition recording_callable :: "('a, ('a pointer \<times> int8_t) list) callee" where
  "recording_callable ctx st seen = Returned (seen @ [(ctx, st)])"

definition trapping_callable :: "('a, ('a pointer \<times> int8_t) list) callee" where
  "trapping_callable ctx st seen = Faulted Trapped seen"

definition spinning_callable :: "('a, ('a pointer \<times> int8_t) list) callee" where
  "spinning_callable ctx st seen = Diverged"

definition scenario_code :: "(64, (64 pointer \<times> int8_t) list) code" where
  "scenario_code =
     [0x4000 \<mapsto> recording_callable, 0x5000 \<mapsto> trapping_callable,
      0x6000 \<mapsto> spinning_callable]"

type_synonym 'a memory = "'a pointer \<Rightarrow> 8 word"

definition storing_callable :: "('a, 'a memory) callee" where
  "storing_callable ctx st m = Returned (m(ctx := st))"

definition memory_code :: "(64, 64 memory) code" where
  "memory_code = [0x4000 \<mapsto> storing_callable]"

section \<open>Properties\<close>

lemma call_fnptr_valid:
  "fp \<noteq> 0 \<Longrightarrow> \<Gamma> fp = Some f \<Longrightarrow>
     call_fnptr \<Gamma> fp x s w = \<lparr>calls = [Invoke fp x s], result = f x s w\<rparr>"
  by (simp add: call_fnptr_def)

lemma call_fnptr_invalid:
  "fp = 0 \<or> \<Gamma> fp = None \<Longrightarrow> call_fnptr \<Gamma> fp x s w = \<lparr>calls = [], result = Undefined\<rparr>"
  by (auto simp: call_fnptr_def)

text \<open>
  C1. For a callback pointer that is not null and at which the function \<open>f\<close> lives, and
  for every context pointer and every status, the trampoline issues exactly one call: to
  \<open>cb\<close>, with the arguments \<open>(taskData, status)\<close>. Nothing else is called, and the run
  ends as that one invocation of \<open>f\<close> on \<open>(taskData, status)\<close> ends.
\<close>

theorem trampoline_invokes_cb_exactly_once:
  assumes "cb \<noteq> 0" and "\<Gamma> cb = Some f"
  shows "calls (cgo_rust_task_callback_bridge_matrix_sdk_ffi \<Gamma> cb taskData status w)
           = [Invoke cb taskData status]
       \<and> result (cgo_rust_task_callback_bridge_matrix_sdk_ffi \<Gamma> cb taskData status w)
           = f taskData status w"
  using assms
  by (simp add: cgo_rust_task_callback_bridge_matrix_sdk_ffi_def call_fnptr_valid)

theorem trampoline_invokes_cb_exactly_once_witness:
  "(0x4000 :: 64 word) \<noteq> 0
   \<and> scenario_code 0x4000 = Some recording_callable
   \<and> calls (cgo_rust_task_callback_bridge_matrix_sdk_ffi scenario_code 0x4000 0x1000 (- 1) [])
       = [Invoke 0x4000 0x1000 (- 1)]
   \<and> result (cgo_rust_task_callback_bridge_matrix_sdk_ffi scenario_code 0x4000 0x1000 (- 1) [])
       = Returned [(0x1000, - 1)]"
proof -
  have nz: "(0x4000 :: 64 word) \<noteq> 0" by simp
  have at: "scenario_code 0x4000 = Some recording_callable"
    by (simp add: scenario_code_def)
  from trampoline_invokes_cb_exactly_once
         [where \<Gamma> = scenario_code and cb = "0x4000" and f = recording_callable
            and taskData = "0x1000" and status = "- 1" and w = "[]", OF nz at] nz at
  show ?thesis by (simp add: recording_callable_def)
qed

text \<open>
  C2. The status byte reaches the callback as it was supplied: the one call issued carries
  the very word \<open>status\<close> (equal bit for bit, hence equal as a signed number), and the
  callee \<open>f\<close> is run on that same word. This holds for every 8-bit value, the minimum
  \<open>-128\<close> and the maximum \<open>127\<close> included: nothing is truncated, negated, reinterpreted
  or clamped.
\<close>

theorem status_passed_through_unmodified:
  assumes "cb \<noteq> 0" and "\<Gamma> cb = Some f"
  shows "map arg_status (calls (cgo_rust_task_callback_bridge_matrix_sdk_ffi \<Gamma> cb taskData status w)) = [status]
       \<and> map (\<lambda>c. sint (arg_status c)) (calls (cgo_rust_task_callback_bridge_matrix_sdk_ffi \<Gamma> cb taskData status w))
           = [sint status]
       \<and> (\<forall>c \<in> set (calls (cgo_rust_task_callback_bridge_matrix_sdk_ffi \<Gamma> cb taskData status w)).
             \<forall>n. bit (arg_status c) n = bit status n)
       \<and> result (cgo_rust_task_callback_bridge_matrix_sdk_ffi \<Gamma> cb taskData status w) = f taskData status w"
  using assms
  by (simp add: cgo_rust_task_callback_bridge_matrix_sdk_ffi_def call_fnptr_valid)

theorem status_passed_through_unmodified_witness:
  "(0x4000 :: 64 word) \<noteq> 0
   \<and> scenario_code 0x4000 = Some recording_callable
   \<and> map (\<lambda>c. sint (arg_status c))
        (calls (cgo_rust_task_callback_bridge_matrix_sdk_ffi scenario_code 0x4000 0x1000 (- 128) [])) = [- 128]
   \<and> result (cgo_rust_task_callback_bridge_matrix_sdk_ffi scenario_code 0x4000 0x1000 (- 128) []) = Returned [(0x1000, - 128)]
   \<and> map (\<lambda>c. sint (arg_status c))
        (calls (cgo_rust_task_callback_bridge_matrix_sdk_ffi scenario_code 0x4000 0x1000 127 [])) = [127]
   \<and> result (cgo_rust_task_callback_bridge_matrix_sdk_ffi scenario_code 0x4000 0x1000 127 []) = Returned [(0x1000, 127)]"
proof -
  have nz: "(0x4000 :: 64 word) \<noteq> 0" by simp
  have at: "scenario_code 0x4000 = Some recording_callable"
    by (simp add: scenario_code_def)
  have lo: "sint (- 128 :: 8 word) = - 128" by simp
  have hi: "sint (127 :: 8 word) = 127" by simp
  from status_passed_through_unmodified
         [where \<Gamma> = scenario_code and cb = "0x4000" and f = recording_callable
            and taskData = "0x1000" and status = "- 128" and w = "[]", OF nz at]
       status_passed_through_unmodified
         [where \<Gamma> = scenario_code and cb = "0x4000" and f = recording_callable
            and taskData = "0x1000" and status = "127" and w = "[]", OF nz at]
       nz at lo hi
  show ?thesis by (simp add: recording_callable_def)
qed

text \<open>
  C3. The context pointer is forwarded as an opaque value. The one call issued carries the
  very pointer \<open>taskData\<close>. The call does not depend on the state of the world, so on
  nothing that is stored at the address the pointer holds: from any two states \<open>m\<close> and
  \<open>m'\<close> the trampoline issues the same call. The callee is started on the state \<open>m\<close> the
  trampoline was entered with, and the run ends in the state the callee left: the
  trampoline changes nothing before or after the forwarded call.
\<close>

theorem context_forwarded_as_opaque_value:
  assumes "cb \<noteq> 0" and "\<Gamma> cb = Some f"
  shows "map arg_context (calls (cgo_rust_task_callback_bridge_matrix_sdk_ffi \<Gamma> cb taskData status m)) = [taskData]
       \<and> calls (cgo_rust_task_callback_bridge_matrix_sdk_ffi \<Gamma> cb taskData status m')
           = calls (cgo_rust_task_callback_bridge_matrix_sdk_ffi \<Gamma> cb taskData status m)
       \<and> result (cgo_rust_task_callback_bridge_matrix_sdk_ffi \<Gamma> cb taskData status m) = f taskData status m"
  using assms
  by (simp add: cgo_rust_task_callback_bridge_matrix_sdk_ffi_def call_fnptr_valid)

theorem context_forwarded_as_opaque_value_witness:
  "(0x4000 :: 64 word) \<noteq> 0
   \<and> memory_code 0x4000 = Some storing_callable
   \<and> map arg_context (calls (cgo_rust_task_callback_bridge_matrix_sdk_ffi memory_code 0x4000 0x1000 7 (\<lambda>a. 0))) = [0x1000]
   \<and> calls (cgo_rust_task_callback_bridge_matrix_sdk_ffi memory_code 0x4000 0x1000 7 (\<lambda>a. 1))
       = calls (cgo_rust_task_callback_bridge_matrix_sdk_ffi memory_code 0x4000 0x1000 7 (\<lambda>a. 0))
   \<and> result (cgo_rust_task_callback_bridge_matrix_sdk_ffi memory_code 0x4000 0x1000 7 (\<lambda>a. 0))
       = Returned ((\<lambda>a. 0)(0x1000 := 7))"
proof -
  have nz: "(0x4000 :: 64 word) \<noteq> 0" by simp
  have at: "memory_code 0x4000 = Some storing_callable"
    by (simp add: memory_code_def)
  from context_forwarded_as_opaque_value
         [where \<Gamma> = memory_code and cb = "0x4000" and f = storing_callable
            and taskData = "0x1000" and status = "7" and m = "\<lambda>a. 0" and m' = "\<lambda>a. 1",
          OF nz at] nz at
  show ?thesis by (simp add: storing_callable_def)
qed

text \<open>
  C5. The trampoline does not check its callback pointer. Called with the null pointer,
  or with an address at which no function lives, it runs into the call all the same, and
  the behaviour of the run is undefined: the trampoline neither returns cleanly nor
  reports an error of its own in that case.
\<close>

theorem no_defensive_check_on_callback:
  assumes "cb = 0 \<or> \<Gamma> cb = None"
  shows "result (cgo_rust_task_callback_bridge_matrix_sdk_ffi \<Gamma> cb taskData status w) = Undefined
       \<and> (\<forall>w'. result (cgo_rust_task_callback_bridge_matrix_sdk_ffi \<Gamma> cb taskData status w) \<noteq> Returned w')
       \<and> (\<forall>e w'. result (cgo_rust_task_callback_bridge_matrix_sdk_ffi \<Gamma> cb taskData status w) \<noteq> Faulted e w')"
  using assms
  by (simp add: cgo_rust_task_callback_bridge_matrix_sdk_ffi_def call_fnptr_invalid)

theorem no_defensive_check_on_callback_witness:
  "((0 :: 64 word) = 0 \<or> scenario_code 0 = None)
   \<and> result (cgo_rust_task_callback_bridge_matrix_sdk_ffi scenario_code 0 0x1000 (- 1) []) = Undefined
   \<and> ((0x7000 :: 64 word) = 0 \<or> scenario_code 0x7000 = None)
   \<and> result (cgo_rust_task_callback_bridge_matrix_sdk_ffi scenario_code 0x7000 0x1000 (- 1) []) = Undefined"
proof -
  have null: "(0 :: 64 word) = 0 \<or> scenario_code 0 = None" by simp
  have wild: "(0x7000 :: 64 word) = 0 \<or> scenario_code 0x7000 = None"
    by (simp add: scenario_code_def)
  from no_defensive_check_on_callback
         [where \<Gamma> = scenario_code and cb = 0 and taskData = "0x1000"
            and status = "- 1" and w = "[]", OF null]
       no_defensive_check_on_callback
         [where \<Gamma> = scenario_code and cb = "0x7000" and taskData = "0x1000"
            and status = "- 1" and w = "[]", OF wild]
       null wild
  show ?thesis by simp
qed

text \<open>
  C6. The trampoline is a transparent pass-through. For a valid callback the run ends
  exactly as the invocation of the callee \<open>f\<close> on the entry state ends, whatever that
  ending is: the final state is the callee's, a fault of the callee reaches the caller
  with the same kind and state, and the trampoline has no fault that is not the
  callee's. The callee is invoked once, so nothing is retried.
\<close>

theorem trampoline_is_transparent:
  assumes "cb \<noteq> 0" and "\<Gamma> cb = Some f"
  shows "result (cgo_rust_task_callback_bridge_matrix_sdk_ffi \<Gamma> cb taskData status w) = f taskData status w
       \<and> (\<forall>e w'. (result (cgo_rust_task_callback_bridge_matrix_sdk_ffi \<Gamma> cb taskData status w) = Faulted e w')
                   = (f taskData status w = Faulted e w'))
       \<and> length (calls (cgo_rust_task_callback_bridge_matrix_sdk_ffi \<Gamma> cb taskData status w)) = 1"
  using assms
  by (simp add: cgo_rust_task_callback_bridge_matrix_sdk_ffi_def call_fnptr_valid)

theorem trampoline_is_transparent_witness:
  "(0x5000 :: 64 word) \<noteq> 0
   \<and> scenario_code 0x5000 = Some trapping_callable
   \<and> result (cgo_rust_task_callback_bridge_matrix_sdk_ffi scenario_code 0x5000 0x1000 3 [(0x2000, 5)])
       = Faulted Trapped [(0x2000, 5)]
   \<and> length (calls (cgo_rust_task_callback_bridge_matrix_sdk_ffi scenario_code 0x5000 0x1000 3 [(0x2000, 5)])) = 1"
proof -
  have nz: "(0x5000 :: 64 word) \<noteq> 0" by simp
  have at: "scenario_code 0x5000 = Some trapping_callable"
    by (simp add: scenario_code_def)
  from trampoline_is_transparent
         [where \<Gamma> = scenario_code and cb = "0x5000" and f = trapping_callable
            and taskData = "0x1000" and status = 3 and w = "[(0x2000, 5)]", OF nz at] nz at
  show ?thesis by (simp add: trapping_callable_def)
qed

text \<open>
  C7. Called with the null pointer as context and with status \<open>0\<close>, the trampoline
  issues its one call with exactly the null context and the status \<open>0\<close>, and the callee
  \<open>f\<close> is run on these two values: neither is replaced by another value.
\<close>

theorem null_context_and_zero_status_forwarded:
  assumes "cb \<noteq> 0" and "\<Gamma> cb = Some f"
  shows "calls (cgo_rust_task_callback_bridge_matrix_sdk_ffi \<Gamma> cb 0 0 w) = [Invoke cb 0 0]
       \<and> result (cgo_rust_task_callback_bridge_matrix_sdk_ffi \<Gamma> cb 0 0 w) = f 0 0 w"
  using assms
  by (simp add: cgo_rust_task_callback_bridge_matrix_sdk_ffi_def call_fnptr_valid)

theorem null_context_and_zero_status_forwarded_witness:
  "(0x4000 :: 64 word) \<noteq> 0
   \<and> scenario_code 0x4000 = Some recording_callable
   \<and> calls (cgo_rust_task_callback_bridge_matrix_sdk_ffi scenario_code 0x4000 0 0 []) = [Invoke 0x4000 0 0]
   \<and> result (cgo_rust_task_callback_bridge_matrix_sdk_ffi scenario_code 0x4000 0 0 []) = Returned [(0, 0)]"
proof -
  have nz: "(0x4000 :: 64 word) \<noteq> 0" by simp
  have at: "scenario_code 0x4000 = Some recording_callable"
    by (simp add: scenario_code_def)
  from null_context_and_zero_status_forwarded
         [where \<Gamma> = scenario_code and cb = "0x4000" and f = recording_callable
            and w = "[]", OF nz at] nz at
  show ?thesis by (simp add: recording_callable_def)
qed

text \<open>
  C9. The trampoline is deterministic, and its behaviour depends on nothing but its three
  arguments. Take two invocations with equal callback, equal context and equal status, the
  callback being valid in both; the state of the world and the rest of the code of the
  process may differ between them. Both issue the same single call (same callee address,
  same context, same status), and each run ends exactly as the function at \<open>cb\<close>, run on
  these arguments, ends from the entry state of that run: the state and the code table
  enter the behaviour through the invoked callee alone. Hence, when the same function
  lives at \<open>cb\<close> in both and the entry states are equal, the two runs are equal as a
  whole, calls and result.
\<close>

theorem trampoline_behaviour_depends_on_arguments_only:
  assumes "cb \<noteq> 0" and "\<Gamma> cb = Some f" and "\<Gamma>' cb' = Some f'"
    and "cb' = cb" and "taskData' = taskData" and "status' = status"
  shows "calls (cgo_rust_task_callback_bridge_matrix_sdk_ffi \<Gamma> cb taskData status w) = [Invoke cb taskData status]
       \<and> calls (cgo_rust_task_callback_bridge_matrix_sdk_ffi \<Gamma>' cb' taskData' status' w')
           = calls (cgo_rust_task_callback_bridge_matrix_sdk_ffi \<Gamma> cb taskData status w)
       \<and> result (cgo_rust_task_callback_bridge_matrix_sdk_ffi \<Gamma> cb taskData status w) = f taskData status w
       \<and> result (cgo_rust_task_callback_bridge_matrix_sdk_ffi \<Gamma>' cb' taskData' status' w') = f' taskData status w'
       \<and> (f' = f \<longrightarrow> w' = w \<longrightarrow>
            cgo_rust_task_callback_bridge_matrix_sdk_ffi \<Gamma>' cb' taskData' status' w' = cgo_rust_task_callback_bridge_matrix_sdk_ffi \<Gamma> cb taskData status w)"
  using assms
  by (simp add: cgo_rust_task_callback_bridge_matrix_sdk_ffi_def call_fnptr_valid)

theorem trampoline_behaviour_depends_on_arguments_only_witness:
  "(0x4000 :: 64 word) \<noteq> 0
   \<and> scenario_code 0x4000 = Some recording_callable
   \<and> (scenario_code(0x4000 \<mapsto> trapping_callable)) 0x4000 = Some trapping_callable
   \<and> (scenario_code(0x7000 \<mapsto> spinning_callable)) 0x4000 = Some recording_callable
   \<and> calls (cgo_rust_task_callback_bridge_matrix_sdk_ffi (scenario_code(0x4000 \<mapsto> trapping_callable)) 0x4000 0x1000 (- 1)
        [(0x2000, 5)])
       = calls (cgo_rust_task_callback_bridge_matrix_sdk_ffi scenario_code 0x4000 0x1000 (- 1) [])
   \<and> result (cgo_rust_task_callback_bridge_matrix_sdk_ffi scenario_code 0x4000 0x1000 (- 1) []) = Returned [(0x1000, - 1)]
   \<and> result (cgo_rust_task_callback_bridge_matrix_sdk_ffi (scenario_code(0x4000 \<mapsto> trapping_callable)) 0x4000 0x1000 (- 1)
        [(0x2000, 5)])
       = Faulted Trapped [(0x2000, 5)]
   \<and> cgo_rust_task_callback_bridge_matrix_sdk_ffi (scenario_code(0x7000 \<mapsto> spinning_callable)) 0x4000 0x1000 (- 1) [(0x2000, 5)]
       = cgo_rust_task_callback_bridge_matrix_sdk_ffi scenario_code 0x4000 0x1000 (- 1) [(0x2000, 5)]
   \<and> result (cgo_rust_task_callback_bridge_matrix_sdk_ffi scenario_code 0x4000 0x1000 (- 1) [(0x2000, 5)])
       = Returned [(0x2000, 5), (0x1000, - 1)]"
proof -
  have nz: "(0x4000 :: 64 word) \<noteq> 0" by simp
  have at: "scenario_code 0x4000 = Some recording_callable"
    by (simp add: scenario_code_def)
  have at': "(scenario_code(0x4000 \<mapsto> trapping_callable)) 0x4000 = Some trapping_callable"
    by simp
  have at'': "(scenario_code(0x7000 \<mapsto> spinning_callable)) 0x4000 = Some recording_callable"
    by (simp add: scenario_code_def)
  from trampoline_behaviour_depends_on_arguments_only
         [where \<Gamma> = scenario_code and cb = "0x4000" and f = recording_callable
            and \<Gamma>' = "scenario_code(0x4000 \<mapsto> trapping_callable)" and cb' = "0x4000"
            and f' = trapping_callable
            and taskData = "0x1000" and taskData' = "0x1000"
            and status = "- 1" and status' = "- 1"
            and w = "[]" and w' = "[(0x2000, 5)]", OF nz at at' refl refl refl]
       trampoline_behaviour_depends_on_arguments_only
         [where \<Gamma> = scenario_code and cb = "0x4000" and f = recording_callable
            and \<Gamma>' = "scenario_code(0x7000 \<mapsto> spinning_callable)" and cb' = "0x4000"
            and f' = recording_callable
            and taskData = "0x1000" and taskData' = "0x1000"
            and status = "- 1" and status' = "- 1"
            and w = "[(0x2000, 5)]" and w' = "[(0x2000, 5)]", OF nz at at'' refl refl refl]
       nz at at' at''
  show ?thesis by (simp add: recording_callable_def trapping_callable_def)
qed

text \<open>
  C10. The trampoline returns if and only if the one forwarded invocation returns. For a
  valid callback, the run ends in a return exactly when the invocation of the callee
  \<open>f\<close> on \<open>(taskData, status)\<close> does, and then in the same state; it diverges exactly
  when that invocation diverges, so it terminates whenever the callback terminates. The
  body makes this one call and no other.
\<close>

theorem trampoline_returns_iff_callback_returns:
  assumes "cb \<noteq> 0" and "\<Gamma> cb = Some f"
  shows "(\<forall>w'. (result (cgo_rust_task_callback_bridge_matrix_sdk_ffi \<Gamma> cb taskData status w) = Returned w')
               = (f taskData status w = Returned w'))
       \<and> ((result (cgo_rust_task_callback_bridge_matrix_sdk_ffi \<Gamma> cb taskData status w) = Diverged)
            = (f taskData status w = Diverged))
       \<and> length (calls (cgo_rust_task_callback_bridge_matrix_sdk_ffi \<Gamma> cb taskData status w)) = 1"
  using assms
  by (simp add: cgo_rust_task_callback_bridge_matrix_sdk_ffi_def call_fnptr_valid)

theorem trampoline_returns_iff_callback_returns_witness:
  "(0x4000 :: 64 word) \<noteq> 0
   \<and> scenario_code 0x4000 = Some recording_callable
   \<and> recording_callable (0x1000 :: 64 word) 3 [] = Returned [(0x1000, 3)]
   \<and> result (cgo_rust_task_callback_bridge_matrix_sdk_ffi scenario_code 0x4000 0x1000 3 []) = Returned [(0x1000, 3)]
   \<and> result (cgo_rust_task_callback_bridge_matrix_sdk_ffi scenario_code 0x4000 0x1000 3 []) \<noteq> Diverged
   \<and> (0x6000 :: 64 word) \<noteq> 0
   \<and> scenario_code 0x6000 = Some spinning_callable
   \<and> spinning_callable (0x1000 :: 64 word) 3 [] = Diverged
   \<and> result (cgo_rust_task_callback_bridge_matrix_sdk_ffi scenario_code 0x6000 0x1000 3 []) = Diverged"
proof -
  have nz: "(0x4000 :: 64 word) \<noteq> 0" by simp
  have at: "scenario_code 0x4000 = Some recording_callable"
    by (simp add: scenario_code_def)
  have nz': "(0x6000 :: 64 word) \<noteq> 0" by simp
  have at': "scenario_code 0x6000 = Some spinning_callable"
    by (simp add: scenario_code_def)
  from trampoline_returns_iff_callback_returns
         [where \<Gamma> = scenario_code and cb = "0x4000" and f = recording_callable
            and taskData = "0x1000" and status = 3 and w = "[]", OF nz at]
       trampoline_returns_iff_callback_returns
         [where \<Gamma> = scenario_code and cb = "0x6000" and f = spinning_callable
            and taskData = "0x1000" and status = 3 and w = "[]", OF nz' at']
       nz at nz' at'
  show ?thesis by (simp add: recording_callable_def spinning_callable_def)
qed

end
